theory Spec2Isabelle
  imports Main
begin

section \<open>Data model\<close>

text \<open>
  The pydantic class \<open>Student\<close> is the write shape: four required fields and no
  constraint beyond their primitive types. The table row \<open>StudentModel\<close> and the read
  shape \<open>StudentResponse\<close> carry the same four fields and an integer \<open>id\<close>. The field
  \<open>id\<close> is written \<open>id_m\<close> on a row and \<open>id_r\<close> on a read shape. Integers are Python
  integers, which have no bound; the storage engine holds signed 64-bit integers, and
  the driver raises \<open>OverflowError\<close> when it is given any other integer to bind to a
  statement.
\<close>

record Student =
  name :: string
  email :: string
  age :: int
  course :: string

record StudentModel = Student +
  id_m :: int

record StudentResponse = Student +
  id_r :: int

record DeleteResult =
  message :: string
  deleted_student :: StudentResponse

text \<open>
  What an operation can raise. \<open>HTTPException\<close> carries \<open>status_code\<close> and \<open>detail\<close>;
  \<open>RequestValidationError\<close> is the rejection of a request body by the schema;
  \<open>InvalidRequestError\<close> is what \<open>db.refresh\<close> raises when the row it reloads is gone;
  \<open>OverflowError\<close> is what the driver raises for an integer outside the 64-bit range;
  \<open>OperationalError\<close> is the engine reporting that it has no id left to give.
\<close>

datatype error =
    RequestValidationError
  | HTTPException int string
  | InvalidRequestError
  | OverflowError
  | OperationalError

text \<open>The integers the storage engine holds and the driver binds.\<close>

definition int64 :: "int \<Rightarrow> bool" where
  "int64 i \<longleftrightarrow> - (2 ^ 63) \<le> i \<and> i < 2 ^ 63"

section \<open>Record store\<close>

text \<open>
  A session sees the one table \<open>students\<close>, a list of rows. Every operation of the
  source commits before it returns, so a session is its committed table.
\<close>

type_synonym Session = "StudentModel list"

text \<open>
  \<open>db.query(StudentModel).filter(StudentModel.id == student_id).first()\<close>: the id is
  bound to the statement, then the first row with that id is looked up.
\<close>

definition query_first :: "int \<Rightarrow> Session \<Rightarrow> error + StudentModel option" where
  "query_first student_id db =
     (if int64 student_id then Inr (find (\<lambda>r. id_m r = student_id) db)
      else Inl OverflowError)"

text \<open>
  The column \<open>id\<close> is declared \<open>Column(Integer, primary_key=True)\<close> on an SQLite
  engine, with no autoincrement option: an insert that gives no id takes one more than
  the largest id in the table, and 1 in an empty table.
\<close>

definition next_rowid :: "Session \<Rightarrow> int" where
  "next_rowid db = (if db = [] then 1 else Max (set (map id_m db)) + 1)"

text \<open>
  \<open>db.add(db_student); db.commit()\<close>: the four values are bound to the insert, then the
  row gets its id and joins the table. When the largest id of the table is the largest
  64-bit integer, the engine looks for an unused id at random and reports an error when
  it finds none; the model has only the error there, so a creation that succeeds in
  the model took the next id.
\<close>

definition add_commit :: "Student \<Rightarrow> Session \<Rightarrow> error + StudentModel \<times> Session" where
  "add_commit student db =
     (if \<not> int64 (age student) then Inl OverflowError
      else if \<not> int64 (next_rowid db) then Inl OperationalError
      else
        (let row = \<lparr>name = name student, email = email student, age = age student,
                    course = course student, id_m = next_rowid db\<rparr>
         in Inr (row, db @ [row])))"

text \<open>
  \<open>db.commit()\<close> of a changed row: the four values are bound to
  \<open>UPDATE students SET ... WHERE id = ?\<close>, which rewrites the row.
\<close>

definition update_commit :: "StudentModel \<Rightarrow> Session \<Rightarrow> error + Session" where
  "update_commit row db =
     (if int64 (age row) then Inr (map (\<lambda>r. if id_m r = id_m row then row else r) db)
      else Inl OverflowError)"

text \<open>\<open>db.delete(db_student); db.commit()\<close>: \<open>DELETE FROM students WHERE id = ?\<close>.\<close>

definition delete_commit :: "StudentModel \<Rightarrow> Session \<Rightarrow> Session" where
  "delete_commit row db = filter (\<lambda>r. id_m r \<noteq> id_m row) db"

text \<open>\<open>db.refresh(db_student)\<close> reloads the row by its primary key.\<close>

definition refresh :: "StudentModel \<Rightarrow> Session \<Rightarrow> error + StudentModel option" where
  "refresh row db = query_first (id_m row) db"

text \<open>\<open>StudentResponse.model_validate(row)\<close> with \<open>from_attributes\<close>.\<close>

definition model_validate :: "StudentModel \<Rightarrow> StudentResponse" where
  "model_validate row =
     \<lparr>name = name row, email = email row, age = age row, course = course row,
      id_r = id_m row\<rparr>"

text \<open>The four columns of a row that a write shape fills.\<close>

definition columns :: "StudentModel \<Rightarrow> Student" where
  "columns row = \<lparr>name = name row, email = email row, age = age row, course = course row\<rparr>"

text \<open>The primary key constraint of the table: no two rows share an id.\<close>

definition primary_key :: "Session \<Rightarrow> bool" where
  "primary_key db = distinct (map id_m db)"

text \<open>A table as the engine holds it: every id and every age is a 64-bit integer.\<close>

definition int64_table :: "Session \<Rightarrow> bool" where
  "int64_table db = list_all (\<lambda>r. int64 (id_m r) \<and> int64 (age r)) db"

section \<open>Operation layer\<close>

text \<open>
  Each operation takes the session and returns what it returns or raises, with the
  table as it is afterwards. A commit that raises leaves the table as it was.
\<close>

definition create_student_func ::
  "Student \<Rightarrow> Session \<Rightarrow> (error + StudentResponse) \<times> Session" where
  "create_student_func student db =
     (case add_commit student db of
        Inl e \<Rightarrow> (Inl e, db)
      | Inr (db_student, db') \<Rightarrow>
          (case refresh db_student db' of
             Inl e \<Rightarrow> (Inl e, db')
           | Inr None \<Rightarrow> (Inl InvalidRequestError, db')
           | Inr (Some row) \<Rightarrow> (Inr (model_validate row), db')))"

definition get_all_students_func ::
  "Session \<Rightarrow> (error + StudentResponse list) \<times> Session" where
  "get_all_students_func db = (Inr (map model_validate db), db)"

definition get_student_func ::
  "int \<Rightarrow> Session \<Rightarrow> (error + StudentResponse) \<times> Session" where
  "get_student_func student_id db =
     (case query_first student_id db of
        Inl e \<Rightarrow> (Inl e, db)
      | Inr None \<Rightarrow> (Inl (HTTPException 404 ''Student not found''), db)
      | Inr (Some student) \<Rightarrow> (Inr (model_validate student), db))"

definition update_student_func ::
  "int \<Rightarrow> Student \<Rightarrow> Session \<Rightarrow> (error + StudentResponse) \<times> Session" where
  "update_student_func student_id student db =
     (case query_first student_id db of
        Inl e \<Rightarrow> (Inl e, db)
      | Inr None \<Rightarrow> (Inl (HTTPException 404 ''Student not found''), db)
      | Inr (Some db_student) \<Rightarrow>
          (let changed = db_student\<lparr>name := name student, email := email student,
                                     age := age student, course := course student\<rparr>
           in case update_commit changed db of
                Inl e \<Rightarrow> (Inl e, db)
              | Inr db' \<Rightarrow>
                  (case refresh changed db' of
                     Inl e \<Rightarrow> (Inl e, db')
                   | Inr None \<Rightarrow> (Inl InvalidRequestError, db')
                   | Inr (Some row) \<Rightarrow> (Inr (model_validate row), db'))))"

definition delete_student_func ::
  "int \<Rightarrow> Session \<Rightarrow> (error + DeleteResult) \<times> Session" where
  "delete_student_func student_id db =
     (case query_first student_id db of
        Inl e \<Rightarrow> (Inl e, db)
      | Inr None \<Rightarrow> (Inl (HTTPException 404 ''Student not found''), db)
      | Inr (Some db_student) \<Rightarrow>
          (let student_data = model_validate db_student;
               db' = delete_commit db_student db
           in (Inr \<lparr>message = ''Student deleted successfully'',
                    deleted_student = student_data\<rparr>, db')))"

section \<open>Validation layer\<close>

text \<open>
  The request body as the schema \<open>Student\<close> sees it. Each of the four fields is absent,
  present with a value its declared type rejects, or present with a value of its
  declared type. The schema declares no default and no constraint on a value, so a
  body is accepted exactly when all four fields carry a value of their type.
\<close>

datatype 'a field = Missing | Wrong_type | Given 'a

record StudentBody =
  name_field :: "string field"
  email_field :: "string field"
  age_field :: "int field"
  course_field :: "string field"

definition validate_body :: "StudentBody \<Rightarrow> error + Student" where
  "validate_body body =
     (case (name_field body, email_field body, age_field body, course_field body) of
        (Given n, Given e, Given a, Given c) \<Rightarrow>
          Inr \<lparr>name = n, email = e, age = a, course = c\<rparr>
      | _ \<Rightarrow> Inl RequestValidationError)"

section \<open>Transport layer\<close>

text \<open>
  A route validates its body, if it has one, before its function is called: a body the
  schema rejects never reaches the operation layer.
\<close>

definition root :: string where
  "root = ''Student Management API with SQLite Database''"

definition create_student ::
  "StudentBody \<Rightarrow> Session \<Rightarrow> (error + StudentResponse) \<times> Session" where
  "create_student body db =
     (case validate_body body of
        Inl e \<Rightarrow> (Inl e, db)
      | Inr student \<Rightarrow> create_student_func student db)"

definition get_all_students :: "Session \<Rightarrow> (error + StudentResponse list) \<times> Session" where
  "get_all_students db = get_all_students_func db"

definition get_student :: "int \<Rightarrow> Session \<Rightarrow> (error + StudentResponse) \<times> Session" where
  "get_student student_id db = get_student_func student_id db"

definition update_student ::
  "int \<Rightarrow> StudentBody \<Rightarrow> Session \<Rightarrow> (error + StudentResponse) \<times> Session" where
  "update_student student_id body db =
     (case validate_body body of
        Inl e \<Rightarrow> (Inl e, db)
      | Inr student \<Rightarrow> update_student_func student_id student db)"

definition delete_student :: "int \<Rightarrow> Session \<Rightarrow> (error + DeleteResult) \<times> Session" where
  "delete_student student_id db = delete_student_func student_id db"

text \<open>The status code a raised error is answered with.\<close>

fun status_of :: "error \<Rightarrow> int" where
  "status_of RequestValidationError = 422"
| "status_of (HTTPException status_code detail) = status_code"
| "status_of InvalidRequestError = 500"
| "status_of OverflowError = 500"
| "status_of OperationalError = 500"

text \<open>The requests of the API and the bodies of its successful answers.\<close>

datatype request =
    GET_root
  | POST_students StudentBody
  | GET_students
  | GET_student int
  | PUT_student int StudentBody
  | DELETE_student int

datatype reply =
    Welcome string
  | One StudentResponse
  | Many "StudentResponse list"
  | Removed DeleteResult

definition answer :: "('a \<Rightarrow> reply) \<Rightarrow> (error + 'a) \<times> Session \<Rightarrow> (error + reply) \<times> Session" where
  "answer wrap res = (case res of (Inl e, db) \<Rightarrow> (Inl e, db) | (Inr x, db) \<Rightarrow> (Inr (wrap x), db))"

fun handle :: "request \<Rightarrow> Session \<Rightarrow> (error + reply) \<times> Session" where
  "handle GET_root db = (Inr (Welcome root), db)"
| "handle (POST_students body) db = answer One (create_student body db)"
| "handle GET_students db = answer Many (get_all_students db)"
| "handle (GET_student student_id) db = answer One (get_student student_id db)"
| "handle (PUT_student student_id body) db = answer One (update_student student_id body db)"
| "handle (DELETE_student student_id) db = answer Removed (delete_student student_id db)"

section \<open>Histories\<close>

text \<open>
  Requests are handled one at a time, each on the table the one before left.
  \<open>run\<close> is the table after a sequence of requests; \<open>created\<close> and \<open>deleted\<close> count the
  creations and deletions that succeeded in it; \<open>issued\<close> lists the ids the creations
  returned, in the order of the requests; \<open>bodies\<close> lists the bodies that the
  creations and updates were sent.
\<close>

fun run :: "request list \<Rightarrow> Session \<Rightarrow> Session" where
  "run [] db = db"
| "run (q # qs) db = run qs (snd (handle q db))"

fun succeeded :: "(error + 'a) \<times> Session \<Rightarrow> bool" where
  "succeeded (Inr x, db) = True"
| "succeeded (Inl e, db) = False"

fun created :: "request list \<Rightarrow> Session \<Rightarrow> nat" where
  "created [] db = 0"
| "created (POST_students body # qs) db =
     (if succeeded (create_student body db) then 1 else 0)
       + created qs (snd (create_student body db))"
| "created (q # qs) db = created qs (snd (handle q db))"

fun deleted :: "request list \<Rightarrow> Session \<Rightarrow> nat" where
  "deleted [] db = 0"
| "deleted (DELETE_student student_id # qs) db =
     (if succeeded (delete_student student_id db) then 1 else 0)
       + deleted qs (snd (delete_student student_id db))"
| "deleted (q # qs) db = deleted qs (snd (handle q db))"


fun bodies :: "request list \<Rightarrow> StudentBody list" where
  "bodies [] = []"
| "bodies (POST_students body # qs) = body # bodies qs"
| "bodies (PUT_student student_id body # qs) = body # bodies qs"
| "bodies (q # qs) = bodies qs"

section \<open>Examples\<close>

text \<open>
  The body of the specification's example, a body with an empty name, a body without
  an age, a write shape, a write shape whose age is the first integer above the 64-bit
  range, and the two rows of a table with ids 1 and 2.
\<close>

definition ann :: StudentBody where
  "ann = \<lparr>name_field = Given ''Ann'', email_field = Given ''a@x.com'',
          age_field = Given 20, course_field = Given ''CS''\<rparr>"

definition nameless :: StudentBody where
  "nameless = \<lparr>name_field = Given [], email_field = Given ''a@x.com'',
               age_field = Given 20, course_field = Given ''CS''\<rparr>"

definition no_age :: StudentBody where
  "no_age = \<lparr>name_field = Given ''Ann'', email_field = Given ''a@x.com'',
             age_field = Missing, course_field = Given ''CS''\<rparr>"

definition bob :: Student where
  "bob = \<lparr>name = ''Bob'', email = ''b@x.com'', age = 21, course = ''EE''\<rparr>"

definition old_bob :: Student where
  "old_bob = \<lparr>name = ''Bob'', email = ''b@x.com'', age = 2 ^ 63, course = ''EE''\<rparr>"

definition ann_row :: StudentModel where
  "ann_row = \<lparr>name = ''Ann'', email = ''a@x.com'', age = 20, course = ''CS'', id_m = 1\<rparr>"

definition bob_row :: StudentModel where
  "bob_row = \<lparr>name = ''Bob'', email = ''b@x.com'', age = 21, course = ''EE'', id_m = 2\<rparr>"

section \<open>Facts about the store\<close>

lemma query_first_in_range:
  "int64 i \<Longrightarrow> query_first i db = Inr (find (\<lambda>r. id_m r = i) db)"
  by (simp add: query_first_def)

lemma query_first_overflow: "\<not> int64 i \<Longrightarrow> query_first i db = Inl OverflowError"
  by (simp add: query_first_def)

lemma query_first_id:
  "query_first i db = Inr (Some r) \<Longrightarrow> id_m r = i \<and> r \<in> set db \<and> int64 i"
  unfolding query_first_def by (auto simp: find_Some_iff split: if_splits)

lemma query_first_None: "query_first i db = Inr None \<longleftrightarrow> int64 i \<and> i \<notin> id_m ` set db"
  unfolding query_first_def by (auto simp: find_None_iff)

lemma query_first_Some_mem:
  "int64 i \<Longrightarrow> i \<in> id_m ` set db \<Longrightarrow> \<exists>r. query_first i db = Inr (Some r)"
  unfolding query_first_def by (cases "find (\<lambda>r. id_m r = i) db") (auto simp: find_None_iff)

lemma query_first_cases:
  "(\<not> int64 i \<and> query_first i db = Inl OverflowError)
   \<or> (int64 i \<and> i \<notin> id_m ` set db \<and> query_first i db = Inr None)
   \<or> (\<exists>row. int64 i \<and> row \<in> set db \<and> id_m row = i \<and> query_first i db = Inr (Some row))"
proof (cases "int64 i")
  case False
  then show ?thesis by (simp add: query_first_overflow)
next
  case True
  show ?thesis
  proof (cases "i \<in> id_m ` set db")
    case False
    with True show ?thesis using query_first_None [of i db] by simp
  next
    case mem: True
    with True obtain r where "query_first i db = Inr (Some r)"
      using query_first_Some_mem by blast
    with True show ?thesis using query_first_id [of i db r] by auto
  qed
qed

lemma query_first_unique:
  "primary_key db \<Longrightarrow> row \<in> set db \<Longrightarrow> int64 (id_m row) \<Longrightarrow>
     query_first (id_m row) db = Inr (Some row)"
  unfolding primary_key_def query_first_def
  by (induction db) (auto simp: image_iff)

lemma next_rowid_greater: "r \<in> set db \<Longrightarrow> id_m r < next_rowid db"
proof -
  assume mem: "r \<in> set db"
  then have ne: "db \<noteq> []" by auto
  have "id_m r \<le> Max (set (map id_m db))"
    using mem by (intro Max_ge) auto
  then show ?thesis using ne by (simp add: next_rowid_def)
qed

lemma next_rowid_new: "r \<in> set db \<Longrightarrow> next_rowid db \<noteq> id_m r"
  using next_rowid_greater [of r db] by simp

lemma next_rowid_fresh: "next_rowid db \<notin> id_m ` set db"
  by (auto dest: next_rowid_new)

lemma find_append_new:
  "i \<notin> id_m ` set db \<Longrightarrow> id_m row = i \<Longrightarrow> find (\<lambda>r. id_m r = i) (db @ [row]) = Some row"
  by (induction db) auto

lemma query_first_next_rowid:
  "int64 (next_rowid db) \<Longrightarrow> id_m row = next_rowid db \<Longrightarrow>
     query_first (next_rowid db) (db @ [row]) = Inr (Some row)"
  by (simp add: query_first_in_range find_append_new next_rowid_fresh)

lemma create_student_func_result:
  assumes "int64 (age student)" and "int64 (next_rowid db)"
  shows "create_student_func student db =
     (Inr \<lparr>name = name student, email = email student, age = age student,
           course = course student, id_r = next_rowid db\<rparr>,
      db @ [\<lparr>name = name student, email = email student, age = age student,
             course = course student, id_m = next_rowid db\<rparr>])"
proof -
  let ?row = "\<lparr>name = name student, email = email student, age = age student,
               course = course student, id_m = next_rowid db\<rparr>"
  have "add_commit student db = Inr (?row, db @ [?row])"
    using assms by (simp add: add_commit_def Let_def)
  moreover have "refresh ?row (db @ [?row]) = Inr (Some ?row)"
    unfolding refresh_def using assms(2) by (simp add: query_first_next_rowid)
  ultimately show ?thesis
    by (simp add: create_student_func_def model_validate_def)
qed

lemma create_student_func_overflow:
  "\<not> int64 (age student) \<Longrightarrow> create_student_func student db = (Inl OverflowError, db)"
  by (simp add: create_student_func_def add_commit_def)

lemma create_student_func_full:
  "int64 (age student) \<Longrightarrow> \<not> int64 (next_rowid db) \<Longrightarrow>
     create_student_func student db = (Inl OperationalError, db)"
  by (simp add: create_student_func_def add_commit_def)

lemma create_student_func_cases:
  "(\<not> int64 (age student) \<and> create_student_func student db = (Inl OverflowError, db))
   \<or> (int64 (age student) \<and> \<not> int64 (next_rowid db)
        \<and> create_student_func student db = (Inl OperationalError, db))
   \<or> (int64 (age student) \<and> int64 (next_rowid db)
        \<and> create_student_func student db =
          (Inr \<lparr>name = name student, email = email student, age = age student,
                course = course student, id_r = next_rowid db\<rparr>,
           db @ [\<lparr>name = name student, email = email student, age = age student,
                  course = course student, id_m = next_rowid db\<rparr>]))"
  using create_student_func_result [of student db] create_student_func_overflow [of student db]
    create_student_func_full [of student db]
  by blast

lemma find_update_same:
  "id_m c = i \<Longrightarrow> i \<in> id_m ` set db \<Longrightarrow>
     find (\<lambda>r. id_m r = i) (map (\<lambda>r. if id_m r = id_m c then c else r) db) = Some c"
  by (induction db) auto

lemma find_update_other:
  "j \<noteq> id_m c \<Longrightarrow>
     find (\<lambda>r. id_m r = j) (map (\<lambda>r. if id_m r = id_m c then c else r) db)
       = find (\<lambda>r. id_m r = j) db"
  by (induction db) auto

lemma query_first_update_other:
  "j \<noteq> id_m c \<Longrightarrow>
     query_first j (map (\<lambda>r. if id_m r = id_m c then c else r) db) = query_first j db"
  by (simp add: query_first_def find_update_other)

lemma query_first_delete_same:
  "int64 (id_m c) \<Longrightarrow> query_first (id_m c) (delete_commit c db) = Inr None"
  unfolding query_first_def delete_commit_def by (simp add: find_None_iff)

lemma query_first_delete_other:
  "j \<noteq> id_m c \<Longrightarrow> query_first j (delete_commit c db) = query_first j db"
  unfolding query_first_def delete_commit_def by (induction db) auto

lemma update_student_func_result:
  assumes "query_first i db = Inr (Some row)" and "int64 (age student)"
  shows "update_student_func i student db =
     (Inr \<lparr>name = name student, email = email student, age = age student,
           course = course student, id_r = i\<rparr>,
      map (\<lambda>r. if id_m r = i
            then row\<lparr>name := name student, email := email student,
                     age := age student, course := course student\<rparr>
            else r) db)"
proof -
  let ?changed = "row\<lparr>name := name student, email := email student,
                       age := age student, course := course student\<rparr>"
  let ?db' = "map (\<lambda>r. if id_m r = id_m ?changed then ?changed else r) db"
  from assms(1) have i: "id_m row = i" and mem: "i \<in> id_m ` set db" and fit: "int64 i"
    using query_first_id [OF assms(1)] by auto
  have uc: "update_commit ?changed db = Inr ?db'"
    using assms(2) by (simp add: update_commit_def)
  have "find (\<lambda>r. id_m r = i) ?db' = Some ?changed"
    by (rule find_update_same) (simp_all add: i mem)
  then have "refresh ?changed ?db' = Inr (Some ?changed)"
    unfolding refresh_def using i fit by (simp add: query_first_in_range)
  with uc show ?thesis
    using assms(1) i by (simp add: update_student_func_def Let_def model_validate_def)
qed

lemma update_student_func_overflow:
  assumes "query_first i db = Inr (Some row)" and "\<not> int64 (age student)"
  shows "update_student_func i student db = (Inl OverflowError, db)"
  using assms by (simp add: update_student_func_def Let_def update_commit_def)

lemma delete_student_func_result:
  assumes "query_first i db = Inr (Some row)"
  shows "delete_student_func i db =
     (Inr \<lparr>message = ''Student deleted successfully'',
           deleted_student = \<lparr>name = name row, email = email row, age = age row,
                               course = course row, id_r = i\<rparr>\<rparr>,
      delete_commit row db)"
  using assms query_first_id [OF assms]
  by (simp add: delete_student_func_def Let_def model_validate_def)

lemma get_student_func_result:
  assumes "query_first i db = Inr (Some row)"
  shows "get_student_func i db =
     (Inr \<lparr>name = name row, email = email row, age = age row, course = course row,
           id_r = i\<rparr>, db)"
  using assms query_first_id [OF assms]
  by (simp add: get_student_func_def model_validate_def)

lemma get_student_func_snd: "snd (get_student_func i db) = db"
  by (simp add: get_student_func_def split: sum.splits option.splits)

lemma update_student_func_cases:
  "(\<not> int64 i \<and> update_student_func i student db = (Inl OverflowError, db))
   \<or> (int64 i \<and> i \<notin> id_m ` set db
        \<and> update_student_func i student db = (Inl (HTTPException 404 ''Student not found''), db))
   \<or> (\<exists>row. query_first i db = Inr (Some row) \<and> \<not> int64 (age student)
        \<and> update_student_func i student db = (Inl OverflowError, db))
   \<or> (\<exists>row. query_first i db = Inr (Some row) \<and> int64 (age student)
        \<and> update_student_func i student db =
          (Inr \<lparr>name = name student, email = email student, age = age student,
                course = course student, id_r = i\<rparr>,
           map (\<lambda>r. if id_m r = i
                 then row\<lparr>name := name student, email := email student,
                          age := age student, course := course student\<rparr>
                 else r) db))"
proof -
  consider (over) "\<not> int64 i" "query_first i db = Inl OverflowError"
    | (none) "int64 i" "i \<notin> id_m ` set db" "query_first i db = Inr None"
    | (some) row where "query_first i db = Inr (Some row)"
    using query_first_cases [of i db] by blast
  then show ?thesis
  proof cases
    case over
    then show ?thesis by (simp add: update_student_func_def)
  next
    case none
    then show ?thesis by (simp add: update_student_func_def)
  next
    case some
    then show ?thesis
      using update_student_func_result [OF some, of student]
        update_student_func_overflow [OF some, of student]
      by blast
  qed
qed

lemma delete_student_func_cases:
  "(\<not> int64 i \<and> delete_student_func i db = (Inl OverflowError, db))
   \<or> (int64 i \<and> i \<notin> id_m ` set db
        \<and> delete_student_func i db = (Inl (HTTPException 404 ''Student not found''), db))
   \<or> (\<exists>row. query_first i db = Inr (Some row)
        \<and> delete_student_func i db =
          (Inr \<lparr>message = ''Student deleted successfully'',
                deleted_student = \<lparr>name = name row, email = email row, age = age row,
                                    course = course row, id_r = i\<rparr>\<rparr>,
           delete_commit row db))"
proof -
  consider (over) "\<not> int64 i" "query_first i db = Inl OverflowError"
    | (none) "int64 i" "i \<notin> id_m ` set db" "query_first i db = Inr None"
    | (some) row where "query_first i db = Inr (Some row)"
    using query_first_cases [of i db] by blast
  then show ?thesis
  proof cases
    case over
    then show ?thesis by (simp add: delete_student_func_def)
  next
    case none
    then show ?thesis by (simp add: delete_student_func_def)
  next
    case some
    then show ?thesis using delete_student_func_result [OF some] by blast
  qed
qed

lemma create_student_func_failed:
  "fst (create_student_func student db) = Inl e \<Longrightarrow> snd (create_student_func student db) = db"
  using create_student_func_cases [of student db] by auto

lemma update_student_func_failed:
  "fst (update_student_func i student db) = Inl e \<Longrightarrow> snd (update_student_func i student db) = db"
  using update_student_func_cases [of i student db] by auto

lemma delete_student_func_failed:
  "fst (delete_student_func i db) = Inl e \<Longrightarrow> snd (delete_student_func i db) = db"
  using delete_student_func_cases [of i db] by auto

lemma snd_answer: "snd (answer wrap res) = snd res"
  by (cases res) (auto simp: answer_def split: sum.splits)

lemma fst_answer_Inl: "fst (answer wrap res) = Inl e \<longleftrightarrow> fst res = Inl e"
  by (cases res) (auto simp: answer_def split: sum.splits)

lemma validate_body_Inl: "validate_body body = Inl e \<Longrightarrow> e = RequestValidationError"
  by (auto simp: validate_body_def split: field.splits)

lemma validate_body_Inr:
  "validate_body body = Inr student \<longleftrightarrow>
     body = \<lparr>name_field = Given (name student), email_field = Given (email student),
             age_field = Given (age student), course_field = Given (course student)\<rparr>"
  by (cases body; cases student) (auto simp: validate_body_def split: field.splits)

lemma create_student_failed:
  "fst (create_student body db) = Inl e \<Longrightarrow> snd (create_student body db) = db"
  by (cases "validate_body body") (auto simp: create_student_def create_student_func_failed)

lemma update_student_failed:
  "fst (update_student i body db) = Inl e \<Longrightarrow> snd (update_student i body db) = db"
  by (cases "validate_body body") (auto simp: update_student_def update_student_func_failed)

lemma handle_failed: "fst (handle q db) = Inl e \<Longrightarrow> snd (handle q db) = db"
  by (cases q)
    (auto simp: snd_answer fst_answer_Inl create_student_failed update_student_failed
      delete_student_func_failed get_student_func_snd get_all_students_def get_student_def
      delete_student_def get_all_students_func_def)

text \<open>The primary key and the 64-bit range are kept by every request.\<close>

lemma primary_key_delete: "primary_key db \<Longrightarrow> primary_key (delete_commit c db)"
  unfolding primary_key_def delete_commit_def by (simp add: distinct_map_filter)

lemma map_id_m_update:
  "id_m c = i \<Longrightarrow> map id_m (map (\<lambda>r. if id_m r = i then c else r) db) = map id_m db"
  by (induction db) auto

lemma primary_key_create_student_func:
  "primary_key db \<Longrightarrow> primary_key (snd (create_student_func student db))"
  using create_student_func_cases [of student db]
  by (auto simp: primary_key_def next_rowid_fresh)

lemma primary_key_update_student_func:
  assumes "primary_key db"
  shows "primary_key (snd (update_student_func i student db))"
proof -
  have "primary_key (map (\<lambda>r. if id_m r = i
      then row\<lparr>name := name student, email := email student,
               age := age student, course := course student\<rparr> else r) db)"
    if "query_first i db = Inr (Some row)" for row
  proof -
    from that have "id_m row = i" using query_first_id by blast
    then have "map id_m (map (\<lambda>r. if id_m r = i
        then row\<lparr>name := name student, email := email student,
                 age := age student, course := course student\<rparr> else r) db) = map id_m db"
      by (intro map_id_m_update) simp
    then show ?thesis
      using assms unfolding primary_key_def by (simp only:)
  qed
  then show ?thesis
    using update_student_func_cases [of i student db] assms by auto
qed

lemma primary_key_delete_student_func:
  "primary_key db \<Longrightarrow> primary_key (snd (delete_student_func i db))"
  using delete_student_func_cases [of i db]
  by (auto simp: primary_key_delete)

lemma primary_key_handle: "primary_key db \<Longrightarrow> primary_key (snd (handle q db))"
proof (cases q)
  case (POST_students body)
  assume "primary_key db"
  with POST_students show ?thesis
    by (cases "validate_body body")
      (simp_all add: snd_answer create_student_def primary_key_create_student_func)
next
  case (PUT_student i body)
  assume "primary_key db"
  with PUT_student show ?thesis
    by (cases "validate_body body")
      (simp_all add: snd_answer update_student_def primary_key_update_student_func)
qed (simp_all add: snd_answer primary_key_delete_student_func delete_student_def
    get_student_def get_student_func_snd get_all_students_def get_all_students_func_def)

lemma primary_key_run: "primary_key db \<Longrightarrow> primary_key (run qs db)"
  by (induction qs arbitrary: db) (simp_all add: primary_key_handle)

lemma int64_table_create_student_func:
  "int64_table db \<Longrightarrow> int64_table (snd (create_student_func student db))"
  using create_student_func_cases [of student db]
  by (auto simp: int64_table_def)

lemma int64_table_update_student_func:
  assumes "int64_table db"
  shows "int64_table (snd (update_student_func i student db))"
proof -
  have "int64_table (map (\<lambda>r. if id_m r = i
      then row\<lparr>name := name student, email := email student,
               age := age student, course := course student\<rparr> else r) db)"
    if "query_first i db = Inr (Some row)" "int64 (age student)" for row
  proof -
    from that(1) have "row \<in> set db" using query_first_id by blast
    with assms have "int64 (id_m row)" by (auto simp: int64_table_def list_all_iff)
    with that(2) assms show ?thesis
      by (auto simp: int64_table_def list_all_iff)
  qed
  then show ?thesis
    using update_student_func_cases [of i student db] assms by auto
qed

lemma int64_table_delete_student_func:
  "int64_table db \<Longrightarrow> int64_table (snd (delete_student_func i db))"
  using delete_student_func_cases [of i db]
  by (auto simp: int64_table_def delete_commit_def list_all_iff)

lemma int64_table_handle: "int64_table db \<Longrightarrow> int64_table (snd (handle q db))"
proof (cases q)
  case (POST_students body)
  assume "int64_table db"
  with POST_students show ?thesis
    by (cases "validate_body body")
      (simp_all add: snd_answer create_student_def int64_table_create_student_func)
next
  case (PUT_student i body)
  assume "int64_table db"
  with PUT_student show ?thesis
    by (cases "validate_body body")
      (simp_all add: snd_answer update_student_def int64_table_update_student_func)
qed (simp_all add: snd_answer int64_table_delete_student_func delete_student_def
    get_student_def get_student_func_snd get_all_students_def get_all_students_func_def)

lemma int64_table_run: "int64_table db \<Longrightarrow> int64_table (run qs db)"
  by (induction qs arbitrary: db) (simp_all add: int64_table_handle)

text \<open>How a request changes the number of rows.\<close>

lemma length_delete_commit:
  "primary_key db \<Longrightarrow> c \<in> set db \<Longrightarrow> Suc (length (delete_commit c db)) = length db"
  unfolding primary_key_def delete_commit_def
proof (induction db)
  case Nil
  then show ?case by simp
next
  case (Cons r db)
  show ?case
  proof (cases "id_m r = id_m c")
    case True
    with Cons.prems have "\<forall>x\<in>set db. id_m x \<noteq> id_m c" by (auto simp: image_iff)
    then have "filter (\<lambda>x. id_m x \<noteq> id_m c) db = db" by (simp add: filter_id_conv)
    with True show ?thesis by simp
  next
    case False
    with Cons.prems have "c \<in> set db" by auto
    with Cons False show ?thesis by simp
  qed
qed

lemma set_delete_commit:
  "primary_key db \<Longrightarrow> c \<in> set db \<Longrightarrow> set (delete_commit c db) = set db - {c}"
  unfolding primary_key_def delete_commit_def
  by (auto simp: distinct_map inj_on_def)

lemma length_update_student: "length (snd (update_student i body db)) = length db"
proof (cases "validate_body body")
  case (Inl e)
  then show ?thesis by (simp add: update_student_def)
next
  case (Inr student)
  with update_student_func_cases [of i student db] show ?thesis
    by (auto simp: update_student_def)
qed

lemma created_step:
  "length (snd (create_student body db)) =
     length db + (if succeeded (create_student body db) then 1 else 0)"
proof (cases "validate_body body")
  case (Inl e)
  then show ?thesis by (simp add: create_student_def)
next
  case (Inr student)
  with create_student_func_cases [of student db] show ?thesis
    by (auto simp: create_student_def)
qed

lemma deleted_step:
  assumes "primary_key db"
  shows "length (snd (delete_student i db))
      + (if succeeded (delete_student i db) then 1 else 0) = length db"
proof -
  have "Suc (length (delete_commit row db)) = length db"
    if "query_first i db = Inr (Some row)" for row
  proof -
    from that have "row \<in> set db" using query_first_id by blast
    with assms show ?thesis by (rule length_delete_commit)
  qed
  then show ?thesis
    using delete_student_func_cases [of i db] by (auto simp: delete_student_def)
qed

lemma length_run:
  "primary_key db \<Longrightarrow> length (run qs db) + deleted qs db = length db + created qs db"
proof (induction qs arbitrary: db)
  case Nil
  then show ?case by simp
next
  case (Cons q qs)
  have pk: "primary_key (snd (handle q db))"
    using Cons.prems by (rule primary_key_handle)
  note ih = Cons.IH [OF pk]
  show ?case
  proof (cases q)
    case GET_root
    with ih show ?thesis by simp
  next
    case (POST_students body)
    with ih created_step [of body db] show ?thesis by (simp add: snd_answer)
  next
    case GET_students
    with ih show ?thesis by (simp add: snd_answer get_all_students_def get_all_students_func_def)
  next
    case (GET_student i)
    with ih show ?thesis by (simp add: snd_answer get_student_def get_student_func_snd)
  next
    case (PUT_student i body)
    with ih length_update_student [of i body db] show ?thesis by (simp add: snd_answer)
  next
    case (DELETE_student i)
    with ih deleted_step [OF Cons.prems, of i] show ?thesis by (simp add: snd_answer)
  qed
qed

text \<open>The records that a read returns are those of the rows.\<close>

lemma listed_iff_got:
  assumes "primary_key db" and "int64_table db"
  shows "r \<in> (\<lambda>row. \<lparr>name = name row, email = email row, age = age row,
                       course = course row, id_r = id_m row\<rparr>) ` set db
     \<longleftrightarrow> (\<exists>i. get_student_func i db = (Inr r, db))"
proof
  assume "r \<in> (\<lambda>row. \<lparr>name = name row, email = email row, age = age row,
                       course = course row, id_r = id_m row\<rparr>) ` set db"
  then obtain row where row: "row \<in> set db"
      "r = \<lparr>name = name row, email = email row, age = age row,
            course = course row, id_r = id_m row\<rparr>"
    by auto
  with assms(2) have "int64 (id_m row)" by (auto simp: int64_table_def list_all_iff)
  with assms(1) row(1) have "query_first (id_m row) db = Inr (Some row)"
    by (simp add: query_first_unique)
  then have "get_student_func (id_m row) db = (Inr r, db)"
    using row(2) by (simp add: get_student_func_result)
  then show "\<exists>i. get_student_func i db = (Inr r, db)" ..
next
  assume "\<exists>i. get_student_func i db = (Inr r, db)"
  then obtain i where got: "get_student_func i db = (Inr r, db)" ..
  then obtain row where row: "query_first i db = Inr (Some row)"
    using query_first_cases [of i db]
    by (auto simp: get_student_func_def)
  with got have "r = \<lparr>name = name row, email = email row, age = age row,
            course = course row, id_r = i\<rparr>"
    by (simp add: get_student_func_result)
  then show "r \<in> (\<lambda>row. \<lparr>name = name row, email = email row, age = age row,
                       course = course row, id_r = id_m row\<rparr>) ` set db"
    using query_first_id [OF row] by auto
qed

text \<open>Where the rows of a table come from.\<close>

lemma bodies_Cons: "set (bodies (q # qs)) = set (bodies [q]) \<union> set (bodies qs)"
  by (cases q) auto

lemma rows_create_student:
  assumes "r \<in> set (snd (create_student body db))"
  shows "r \<in> set db \<or> validate_body body = Inr (columns r)"
proof (cases "validate_body body")
  case (Inl e)
  with assms show ?thesis by (simp add: create_student_def)
next
  case (Inr student)
  with create_student_func_cases [of student db] assms show ?thesis
    by (auto simp: create_student_def columns_def)
qed

lemma rows_update_student:
  assumes "r \<in> set (snd (update_student i body db))"
  shows "r \<in> set db \<or> validate_body body = Inr (columns r)"
proof (cases "validate_body body")
  case (Inl e)
  with assms show ?thesis by (simp add: update_student_def)
next
  case (Inr student)
  with update_student_func_cases [of i student db] assms show ?thesis
    by (auto simp: update_student_def columns_def split: if_splits)
qed

lemma rows_delete_student: "r \<in> set (snd (delete_student i db)) \<Longrightarrow> r \<in> set db"
  using delete_student_func_cases [of i db]
  by (auto simp: delete_student_def delete_commit_def)

lemma rows_handle:
  assumes "r \<in> set (snd (handle q db))"
  shows "r \<in> set db \<or> (\<exists>body\<in>set (bodies [q]). validate_body body = Inr (columns r))"
proof (cases q)
  case GET_root
  with assms show ?thesis by simp
next
  case (POST_students body)
  with assms rows_create_student [of r body db] show ?thesis
    by (auto simp: snd_answer)
next
  case GET_students
  with assms show ?thesis by (simp add: snd_answer get_all_students_def get_all_students_func_def)
next
  case (GET_student i)
  with assms show ?thesis by (simp add: snd_answer get_student_def get_student_func_snd)
next
  case (PUT_student i body)
  with assms rows_update_student [of r i body db] show ?thesis
    by (auto simp: snd_answer)
next
  case (DELETE_student i)
  with assms rows_delete_student [of r i db] show ?thesis
    by (auto simp: snd_answer)
qed

lemma rows_run:
  "r \<in> set (run qs db) \<Longrightarrow>
     r \<in> set db \<or> (\<exists>body\<in>set (bodies qs). validate_body body = Inr (columns r))"
proof (induction qs arbitrary: db)
  case Nil
  then show ?case by simp
next
  case (Cons q qs)
  then have "r \<in> set (run qs (snd (handle q db)))" by simp
  then have "r \<in> set (snd (handle q db))
      \<or> (\<exists>body\<in>set (bodies qs). validate_body body = Inr (columns r))"
    by (rule Cons.IH)
  then show ?case
    using rows_handle [of r q db] bodies_Cons [of q qs] by auto
qed

section \<open>Create, then read\<close>

text \<open>
  C1. For every write shape \<open>student\<close> and every table, when \<open>create_student_func\<close>
  returns a record, \<open>get_student_func\<close> at the id of that record, on the table the
  creation left, returns a record with the same id whose \<open>name\<close>, \<open>email\<close>, \<open>age\<close>
  and \<open>course\<close> are those of \<open>student\<close>, and leaves the table as it is. The creation
  does return a record when the age is a 64-bit integer and so is the next id.
\<close>

theorem create_then_get:
  "(create_student_func student db = (Inr made, db') \<longrightarrow>
      (\<exists>got. get_student_func (id_r made) db' = (Inr got, db')
         \<and> name got = name student \<and> email got = email student
         \<and> age got = age student \<and> course got = course student
         \<and> id_r got = id_r made))
   \<and> (int64 (age student) \<and> int64 (next_rowid db) \<longrightarrow>
        (\<exists>c d. create_student_func student db = (Inr c, d)))"
proof -
  let ?row = "\<lparr>name = name student, email = email student, age = age student,
               course = course student, id_m = next_rowid db\<rparr>"
  have "\<exists>got. get_student_func (id_r made) db' = (Inr got, db')
         \<and> name got = name student \<and> email got = email student
         \<and> age got = age student \<and> course got = course student
         \<and> id_r got = id_r made"
    if ok: "create_student_func student db = (Inr made, db')"
  proof -
    from ok create_student_func_cases [of student db]
    have fit: "int64 (next_rowid db)" and c: "id_r made = next_rowid db"
      and d: "db' = db @ [?row]"
      by auto
    have "query_first (next_rowid db) (db @ [?row]) = Inr (Some ?row)"
      using fit by (simp add: query_first_next_rowid)
    then show ?thesis
      by (simp add: c d get_student_func_result)
  qed
  moreover have "int64 (age student) \<and> int64 (next_rowid db) \<longrightarrow>
        (\<exists>c d. create_student_func student db = (Inr c, d))"
    by (simp add: create_student_func_result)
  ultimately show ?thesis by blast
qed

theorem create_then_get_witness:
  "create_student_func bob [ann_row] = (Inr (model_validate bob_row), [ann_row, bob_row])
   \<and> (\<exists>got. get_student_func (id_r (model_validate bob_row)) [ann_row, bob_row]
              = (Inr got, [ann_row, bob_row])
         \<and> name got = name bob \<and> email got = email bob
         \<and> age got = age bob \<and> course got = course bob
         \<and> id_r got = id_r (model_validate bob_row))
   \<and> int64 (age bob) \<and> int64 (next_rowid [ann_row])
   \<and> (\<exists>c d. create_student_func bob [ann_row] = (Inr c, d))"
proof -
  have a: "int64 (age bob)" and n: "int64 (next_rowid [ann_row])"
    by (simp_all add: bob_def int64_def next_rowid_def ann_row_def)
  have h: "create_student_func bob [ann_row]
      = (Inr (model_validate bob_row), [ann_row, bob_row])"
    by (simp add: create_student_func_result [OF a n] model_validate_def)
      (simp add: bob_def bob_row_def next_rowid_def ann_row_def)
  from h a n
    create_then_get [of bob "[ann_row]" "model_validate bob_row" "[ann_row, bob_row]"]
  show ?thesis by blast
qed

section \<open>The id a creation returns\<close>




section \<open>Update, then read\<close>




section \<open>An id without a row\<close>

text \<open>
  C4, as amended. For every id \<open>i\<close> that is a 64-bit integer and that no row of the
  table has, \<open>get_student_func i\<close>, \<open>update_student_func i student\<close> and
  \<open>delete_student_func i\<close> each raise \<open>HTTPException\<close> with status code 404 and detail
  \<open>Student not found\<close>, which is answered with status 404, and leave the table as it
  is. On every table, for every such integer, a second \<open>delete_student_func i\<close> right
  after a first raises the same exception. For an id that is not a 64-bit integer the
  three operations raise \<open>OverflowError\<close>, which is answered with status 500, and
  leave the table as it is.
\<close>

theorem absent_id_not_found:
  "(int64 i \<and> i \<notin> id_m ` set db \<longrightarrow>
      get_student_func i db = (Inl (HTTPException 404 ''Student not found''), db)
      \<and> update_student_func i student db = (Inl (HTTPException 404 ''Student not found''), db)
      \<and> delete_student_func i db = (Inl (HTTPException 404 ''Student not found''), db))
   \<and> (int64 i \<longrightarrow>
        fst (delete_student_func i (snd (delete_student_func i db)))
          = Inl (HTTPException 404 ''Student not found''))
   \<and> status_of (HTTPException 404 ''Student not found'') = 404
   \<and> (\<not> int64 i \<longrightarrow>
        get_student_func i db = (Inl OverflowError, db)
        \<and> update_student_func i student db = (Inl OverflowError, db)
        \<and> delete_student_func i db = (Inl OverflowError, db)
        \<and> status_of OverflowError = 500)"
proof -
  have first: "get_student_func i db = (Inl (HTTPException 404 ''Student not found''), db)
      \<and> update_student_func i student db = (Inl (HTTPException 404 ''Student not found''), db)
      \<and> delete_student_func i db = (Inl (HTTPException 404 ''Student not found''), db)"
    if "int64 i" "i \<notin> id_m ` set db"
  proof -
    from that have "query_first i db = Inr None" by (simp add: query_first_None)
    then show ?thesis
      by (simp add: get_student_func_def update_student_func_def delete_student_func_def)
  qed
  have again: "fst (delete_student_func i (snd (delete_student_func i db)))
        = Inl (HTTPException 404 ''Student not found'')"
    if fit: "int64 i"
  proof -
    consider (none) "i \<notin> id_m ` set db"
        "delete_student_func i db = (Inl (HTTPException 404 ''Student not found''), db)"
      | (some) row where "query_first i db = Inr (Some row)"
          "snd (delete_student_func i db) = delete_commit row db"
      using delete_student_func_cases [of i db] fit by auto
    then show ?thesis
    proof cases
      case none
      then show ?thesis by simp
    next
      case some
      then have "id_m row = i" using query_first_id by blast
      then have "query_first i (delete_commit row db) = Inr None"
        using query_first_delete_same [of row db] fit by simp
      then have "fst (delete_student_func i (delete_commit row db))
          = Inl (HTTPException 404 ''Student not found'')"
        by (simp add: delete_student_func_def)
      with some(2) show ?thesis by simp
    qed
  qed
  have over: "get_student_func i db = (Inl OverflowError, db)
        \<and> update_student_func i student db = (Inl OverflowError, db)
        \<and> delete_student_func i db = (Inl OverflowError, db)"
    if "\<not> int64 i"
    using that
    by (simp add: query_first_overflow get_student_func_def update_student_func_def
        delete_student_func_def)
  from first again over show ?thesis by simp
qed

theorem absent_id_not_found_witness:
  "int64 7 \<and> 7 \<notin> id_m ` set [ann_row, bob_row]
   \<and> get_student_func 7 [ann_row, bob_row]
       = (Inl (HTTPException 404 ''Student not found''), [ann_row, bob_row])
   \<and> update_student_func 7 bob [ann_row, bob_row]
       = (Inl (HTTPException 404 ''Student not found''), [ann_row, bob_row])
   \<and> delete_student_func 7 [ann_row, bob_row]
       = (Inl (HTTPException 404 ''Student not found''), [ann_row, bob_row])
   \<and> int64 1
   \<and> fst (delete_student_func 1 (snd (delete_student_func 1 [ann_row, bob_row])))
       = Inl (HTTPException 404 ''Student not found'')
   \<and> \<not> int64 (2 ^ 63)
   \<and> get_student_func (2 ^ 63) [ann_row, bob_row] = (Inl OverflowError, [ann_row, bob_row])
   \<and> update_student_func (2 ^ 63) bob [ann_row, bob_row]
       = (Inl OverflowError, [ann_row, bob_row])
   \<and> delete_student_func (2 ^ 63) [ann_row, bob_row]
       = (Inl OverflowError, [ann_row, bob_row])"
proof -
  have h: "int64 7" "7 \<notin> id_m ` set [ann_row, bob_row]" "int64 1" "\<not> int64 (2 ^ 63)"
    by (simp_all add: ann_row_def bob_row_def int64_def)
  from h absent_id_not_found [of 7 "[ann_row, bob_row]" bob]
    absent_id_not_found [of 1 "[ann_row, bob_row]" bob]
    absent_id_not_found [of "2 ^ 63" "[ann_row, bob_row]" bob]
  show ?thesis by blast
qed

text \<open>
  The claim as it is written fails: the path takes every integer as an id, and for the
  id \<open>2 ^ 63\<close>, which no row has, the read and the deletion raise \<open>OverflowError\<close>,
  answered with status 500 and not 404.
\<close>

theorem id_out_of_range_not_404:
  "2 ^ 63 \<notin> id_m ` set [ann_row, bob_row]
   \<and> get_student_func (2 ^ 63) [ann_row, bob_row] = (Inl OverflowError, [ann_row, bob_row])
   \<and> delete_student_func (2 ^ 63) [ann_row, bob_row]
       = (Inl OverflowError, [ann_row, bob_row])
   \<and> fst (delete_student_func (2 ^ 63) (snd (delete_student_func (2 ^ 63) [ann_row, bob_row])))
       = Inl OverflowError
   \<and> status_of OverflowError = 500"
  by (simp add: ann_row_def bob_row_def get_student_func_def delete_student_func_def
      query_first_def int64_def)

section \<open>Delete\<close>

text \<open>
  C5. On every table as the engine holds it, for every row of the table,
  \<open>delete_student_func\<close> at the id of the row returns the message
  \<open>Student deleted successfully\<close> with, as \<open>deleted_student\<close>, the id and the \<open>name\<close>,
  \<open>email\<close>, \<open>age\<close> and \<open>course\<close> of that row, which is also the record that
  \<open>get_student_func\<close> returned at that id before the call; the table it leaves has the
  rows of the table before except that row, and \<open>get_student_func\<close> at that id on it
  raises the 404.
\<close>

theorem delete_returns_record:
  assumes "row \<in> set db" and "primary_key db" and "int64_table db"
  shows "\<exists>db'.
     delete_student_func (id_m row) db =
       (Inr \<lparr>message = ''Student deleted successfully'',
             deleted_student = \<lparr>name = name row, email = email row, age = age row,
                                 course = course row, id_r = id_m row\<rparr>\<rparr>, db')
     \<and> get_student_func (id_m row) db =
         (Inr \<lparr>name = name row, email = email row, age = age row,
               course = course row, id_r = id_m row\<rparr>, db)
     \<and> set db' = set db - {row}
     \<and> Suc (length db') = length db
     \<and> get_student_func (id_m row) db' = (Inl (HTTPException 404 ''Student not found''), db')"
proof -
  from assms(1,3) have fit: "int64 (id_m row)"
    by (auto simp: int64_table_def list_all_iff)
  with assms have q: "query_first (id_m row) db = Inr (Some row)"
    by (simp add: query_first_unique)
  have gone: "query_first (id_m row) (delete_commit row db) = Inr None"
    using fit by (rule query_first_delete_same)
  then have "get_student_func (id_m row) (delete_commit row db)
      = (Inl (HTTPException 404 ''Student not found''), delete_commit row db)"
    by (simp add: get_student_func_def)
  then show ?thesis
    using set_delete_commit [OF assms(2,1)] length_delete_commit [OF assms(2,1)]
    by (simp add: delete_student_func_result [OF q] get_student_func_result [OF q])
qed

theorem delete_returns_record_witness:
  "bob_row \<in> set [ann_row, bob_row] \<and> primary_key [ann_row, bob_row]
   \<and> int64_table [ann_row, bob_row]
   \<and> (\<exists>db'.
     delete_student_func (id_m bob_row) [ann_row, bob_row] =
       (Inr \<lparr>message = ''Student deleted successfully'',
             deleted_student = \<lparr>name = name bob_row, email = email bob_row, age = age bob_row,
                                 course = course bob_row, id_r = id_m bob_row\<rparr>\<rparr>, db')
     \<and> get_student_func (id_m bob_row) [ann_row, bob_row] =
         (Inr \<lparr>name = name bob_row, email = email bob_row, age = age bob_row,
               course = course bob_row, id_r = id_m bob_row\<rparr>, [ann_row, bob_row])
     \<and> set db' = set [ann_row, bob_row] - {bob_row}
     \<and> Suc (length db') = length [ann_row, bob_row]
     \<and> get_student_func (id_m bob_row) db'
         = (Inl (HTTPException 404 ''Student not found''), db'))"
proof -
  have h1: "bob_row \<in> set [ann_row, bob_row]" by simp
  have h2: "primary_key [ann_row, bob_row]"
    by (simp add: primary_key_def ann_row_def bob_row_def)
  have h3: "int64_table [ann_row, bob_row]"
    by (simp add: int64_table_def int64_def ann_row_def bob_row_def)
  from h1 h2 h3 delete_returns_record [OF h1 h2 h3] show ?thesis by blast
qed

section \<open>List all\<close>

text \<open>
  C6. On every table, \<open>get_all_students_func\<close> returns, for each row of the table and
  in the order of the rows, the record with the id, \<open>name\<close>, \<open>email\<close>, \<open>age\<close> and
  \<open>course\<close> of that row, and nothing else; on the empty table it returns the empty
  list. When a creation returns a record, on a table whose next id is a 64-bit integer,
  the list on the table it leaves is the list on the table before followed by a record
  with the new id and the four fields of the write shape. After any sequence of requests on the empty table, the list has as many
  records as creations succeeded minus deletions succeeded, and its records are
  exactly those that \<open>get_student_func\<close> returns at some id.
\<close>

theorem list_all_exact:
  "get_all_students_func db =
     (Inr (map (\<lambda>row. \<lparr>name = name row, email = email row, age = age row,
                        course = course row, id_r = id_m row\<rparr>) db), db)
   \<and> get_all_students_func [] = (Inr [], [])
   \<and> (int64 (next_rowid db) \<and> create_student_func student db = (Inr made, db') \<longrightarrow>
        get_all_students_func db' =
          (Inr (map (\<lambda>row. \<lparr>name = name row, email = email row, age = age row,
                             course = course row, id_r = id_m row\<rparr>) db
                @ [\<lparr>name = name student, email = email student, age = age student,
                     course = course student, id_r = id_r made\<rparr>]), db'))
   \<and> (\<exists>listed. get_all_students_func (run qs []) = (Inr listed, run qs [])
        \<and> listed = map (\<lambda>row. \<lparr>name = name row, email = email row, age = age row,
                                 course = course row, id_r = id_m row\<rparr>) (run qs [])
        \<and> int (length listed) = int (created qs []) - int (deleted qs [])
        \<and> set listed = {r. \<exists>i. get_student_func i (run qs []) = (Inr r, run qs [])})"
proof -
  let ?read = "\<lambda>row. \<lparr>name = name row, email = email row, age = age row,
                       course = course row, id_r = id_m row\<rparr>"
  have all: "get_all_students_func t = (Inr (map ?read t), t)" for t
    by (simp add: get_all_students_func_def model_validate_def)
  have after: "get_all_students_func db' =
          (Inr (map ?read db
                @ [\<lparr>name = name student, email = email student, age = age student,
                     course = course student, id_r = id_r made\<rparr>]), db')"
    if ok: "create_student_func student db = (Inr made, db')"
  proof -
    from ok create_student_func_cases [of student db]
    have "id_r made = next_rowid db"
      and "db' = db @ [\<lparr>name = name student, email = email student, age = age student,
             course = course student, id_m = next_rowid db\<rparr>]"
      by auto
    then show ?thesis by (simp add: all)
  qed
  have pk: "primary_key (run qs [])"
    by (rule primary_key_run) (simp add: primary_key_def)
  have tab: "int64_table (run qs [])"
    by (rule int64_table_run) (simp add: int64_table_def)
  have "length (run qs []) + deleted qs [] = length ([]::Session) + created qs []"
    by (rule length_run) (simp add: primary_key_def)
  then have len: "int (length (map ?read (run qs []))) = int (created qs []) - int (deleted qs [])"
    by simp
  have same: "set (map ?read (run qs []))
      = {r. \<exists>i. get_student_func i (run qs []) = (Inr r, run qs [])}"
    using listed_iff_got [OF pk tab] by auto
  from all [of db] all [of "[]"] after all [of "run qs []"] len same
  show ?thesis by simp
qed

theorem list_all_exact_witness:
  "int64 (next_rowid [ann_row])
   \<and> create_student_func bob [ann_row] = (Inr (model_validate bob_row), [ann_row, bob_row])
   \<and> get_all_students_func [ann_row, bob_row] =
       (Inr [\<lparr>name = ''Ann'', email = ''a@x.com'', age = 20, course = ''CS'', id_r = 1\<rparr>,
             \<lparr>name = ''Bob'', email = ''b@x.com'', age = 21, course = ''EE'', id_r = 2\<rparr>],
        [ann_row, bob_row])"
proof -
  have a: "int64 (age bob)" and n: "int64 (next_rowid [ann_row])"
    by (simp_all add: bob_def int64_def next_rowid_def ann_row_def)
  have h: "create_student_func bob [ann_row]
      = (Inr (model_validate bob_row), [ann_row, bob_row])"
    by (simp add: create_student_func_result [OF a n] model_validate_def)
      (simp add: bob_def bob_row_def next_rowid_def ann_row_def)
  from list_all_exact [of "[ann_row]" bob "model_validate bob_row" "[ann_row, bob_row]" "[]"] h n
  have "get_all_students_func [ann_row, bob_row] =
          (Inr (map (\<lambda>row. \<lparr>name = name row, email = email row, age = age row,
                             course = course row, id_r = id_m row\<rparr>) [ann_row]
                @ [\<lparr>name = name bob, email = email bob, age = age bob,
                     course = course bob, id_r = id_r (model_validate bob_row)\<rparr>]),
           [ann_row, bob_row])"
    by blast
  then have "get_all_students_func [ann_row, bob_row] =
       (Inr [\<lparr>name = ''Ann'', email = ''a@x.com'', age = 20, course = ''CS'', id_r = 1\<rparr>,
             \<lparr>name = ''Bob'', email = ''b@x.com'', age = 21, course = ''EE'', id_r = 2\<rparr>],
        [ann_row, bob_row])"
    by (simp add: ann_row_def bob_def bob_row_def model_validate_def)
  with n h show ?thesis by blast
qed

section \<open>What a stored row holds\<close>

text \<open>
  C7, as amended. After any sequence of requests on the empty table, every row of the
  table has all four columns filled from one body of a creation or update of that
  sequence that the schema accepted: the body gives a value to each of the four fields,
  and the row holds these values. The name is a string, which may be empty.
\<close>

theorem stored_columns_accepted:
  "\<forall>r\<in>set (run qs []). \<exists>body\<in>set (bodies qs).
     validate_body body = Inr (columns r)
     \<and> name_field body = Given (name r) \<and> email_field body = Given (email r)
     \<and> age_field body = Given (age r) \<and> course_field body = Given (course r)"
proof
  fix r
  assume "r \<in> set (run qs [])"
  then obtain body where body: "body \<in> set (bodies qs)" "validate_body body = Inr (columns r)"
    using rows_run [of r qs "[]"] by auto
  from body(2) have "name_field body = Given (name r) \<and> email_field body = Given (email r)
     \<and> age_field body = Given (age r) \<and> course_field body = Given (course r)"
    by (simp add: validate_body_Inr columns_def)
  with body show "\<exists>body\<in>set (bodies qs).
     validate_body body = Inr (columns r)
     \<and> name_field body = Given (name r) \<and> email_field body = Given (email r)
     \<and> age_field body = Given (age r) \<and> course_field body = Given (course r)"
    by blast
qed

theorem stored_columns_accepted_witness:
  "ann_row \<in> set (run [POST_students ann] [])
   \<and> (\<exists>body\<in>set (bodies [POST_students ann]).
     validate_body body = Inr (columns ann_row)
     \<and> name_field body = Given (name ann_row) \<and> email_field body = Given (email ann_row)
     \<and> age_field body = Given (age ann_row) \<and> course_field body = Given (course ann_row))"
proof -
  have h: "ann_row \<in> set (run [POST_students ann] [])"
    by (simp add: ann_def ann_row_def validate_body_def create_student_def
        create_student_func_result int64_def next_rowid_def snd_answer)
  from h stored_columns_accepted [of "[POST_students ann]"] show ?thesis by blast
qed

text \<open>
  The claim as it is written fails on the name: the schema accepts a body whose name is
  the empty string, and the creation stores a row with that name.
\<close>

theorem empty_name_stored:
  "validate_body nameless = Inr \<lparr>name = [], email = ''a@x.com'', age = 20, course = ''CS''\<rparr>
   \<and> run [POST_students nameless] []
       = [\<lparr>name = [], email = ''a@x.com'', age = 20, course = ''CS'', id_m = 1\<rparr>]"
  by (simp add: nameless_def validate_body_def create_student_def create_student_func_result
      int64_def next_rowid_def snd_answer)

section \<open>Failures\<close>

text \<open>
  C8. A request that fails leaves the table as it was. A body that the schema rejects
  makes the creation and the update fail with that error on the unchanged table,
  before the operation layer is reached; and whenever \<open>get_student_func\<close>,
  \<open>update_student_func\<close> or \<open>delete_student_func\<close> raises, the table after the call
  is the table before it.
\<close>

theorem failed_request_leaves_table:
  "(fst (handle q db) = Inl e1 \<longrightarrow> snd (handle q db) = db)
   \<and> (validate_body body = Inl e2 \<longrightarrow>
        create_student body db = (Inl e2, db) \<and> update_student i body db = (Inl e2, db))
   \<and> (fst (get_student_func i db) = Inl e3 \<longrightarrow> snd (get_student_func i db) = db)
   \<and> (fst (update_student_func i student db) = Inl e4 \<longrightarrow>
        snd (update_student_func i student db) = db)
   \<and> (fst (delete_student_func i db) = Inl e5 \<longrightarrow> snd (delete_student_func i db) = db)"
proof -
  have "validate_body body = Inl e2 \<longrightarrow>
        create_student body db = (Inl e2, db) \<and> update_student i body db = (Inl e2, db)"
    by (simp add: create_student_def update_student_def)
  then show ?thesis
    using handle_failed [of q db e1] get_student_func_snd [of i db]
      update_student_func_failed [of i student db e4] delete_student_func_failed [of i db e5]
    by blast
qed

theorem failed_request_leaves_table_witness:
  "fst (handle (PUT_student 7 ann) [ann_row]) = Inl (HTTPException 404 ''Student not found'')
   \<and> snd (handle (PUT_student 7 ann) [ann_row]) = [ann_row]
   \<and> validate_body no_age = Inl RequestValidationError
   \<and> create_student no_age [ann_row] = (Inl RequestValidationError, [ann_row])
   \<and> update_student 1 no_age [ann_row] = (Inl RequestValidationError, [ann_row])
   \<and> fst (get_student_func 7 [ann_row]) = Inl (HTTPException 404 ''Student not found'')
   \<and> snd (get_student_func 7 [ann_row]) = [ann_row]
   \<and> fst (update_student_func 1 old_bob [ann_row]) = Inl OverflowError
   \<and> snd (update_student_func 1 old_bob [ann_row]) = [ann_row]
   \<and> fst (delete_student_func 7 [ann_row]) = Inl (HTTPException 404 ''Student not found'')
   \<and> snd (delete_student_func 7 [ann_row]) = [ann_row]"
proof -
  have absent: "query_first 7 [ann_row] = Inr None"
    by (simp add: query_first_def int64_def ann_row_def)
  have h1: "fst (handle (PUT_student 7 ann) [ann_row])
      = Inl (HTTPException 404 ''Student not found'')"
    using absent
    by (simp add: answer_def update_student_def ann_def validate_body_def
        update_student_func_def)
  have h2: "validate_body no_age = Inl RequestValidationError"
    by (simp add: no_age_def validate_body_def)
  have h3: "fst (get_student_func 7 [ann_row]) = Inl (HTTPException 404 ''Student not found'')"
    using absent by (simp add: get_student_func_def)
  have h4: "fst (update_student_func 1 old_bob [ann_row]) = Inl OverflowError"
    by (simp add: update_student_func_def query_first_def update_commit_def int64_def
        ann_row_def old_bob_def Let_def)
  have h5: "fst (delete_student_func 7 [ann_row])
      = Inl (HTTPException 404 ''Student not found'')"
    using absent by (simp add: delete_student_func_def)
  from h1 h2 h3 h5
    failed_request_leaves_table [of "PUT_student 7 ann" "[ann_row]"
      "HTTPException 404 ''Student not found''" no_age RequestValidationError 7
      "HTTPException 404 ''Student not found''" bob "HTTPException 404 ''Student not found''"
      "HTTPException 404 ''Student not found''"]
  have part1: "snd (handle (PUT_student 7 ann) [ann_row]) = [ann_row]
      \<and> create_student no_age [ann_row] = (Inl RequestValidationError, [ann_row])
      \<and> snd (get_student_func 7 [ann_row]) = [ann_row]
      \<and> snd (delete_student_func 7 [ann_row]) = [ann_row]"
    by blast
  from h2 h4
    failed_request_leaves_table [of "PUT_student 7 ann" "[ann_row]"
      "HTTPException 404 ''Student not found''" no_age RequestValidationError 1
      "HTTPException 404 ''Student not found''" old_bob OverflowError
      "HTTPException 404 ''Student not found''"]
  have part2: "update_student 1 no_age [ann_row] = (Inl RequestValidationError, [ann_row])
      \<and> snd (update_student_func 1 old_bob [ann_row]) = [ann_row]"
    by blast
  from h1 h2 h3 h4 h5 part1 part2 show ?thesis by blast
qed

section \<open>Reads\<close>

text \<open>
  C9. On every table and for every id, \<open>get_student_func\<close> and
  \<open>get_all_students_func\<close> leave the table as it is, and the same call made again
  right after gives the same result.
\<close>

theorem reads_change_nothing:
  "snd (get_student_func i db) = db
   \<and> get_student_func i (snd (get_student_func i db)) = get_student_func i db
   \<and> snd (get_all_students_func db) = db
   \<and> get_all_students_func (snd (get_all_students_func db)) = get_all_students_func db"
  by (simp add: get_student_func_snd get_all_students_func_def)

section \<open>The other records\<close>

text \<open>
  C10. For every table and all ids \<open>j \<noteq> i\<close>, \<open>update_student_func i student\<close> and
  \<open>delete_student_func i\<close> leave the record with id \<open>j\<close> as it was: the table after
  has the same rows with id \<open>j\<close>, the query for \<open>j\<close> finds the same row or none, and
  \<open>get_student_func j\<close> returns or raises the same.
\<close>

theorem other_records_untouched:
  assumes "j \<noteq> i"
  shows "query_first j (snd (update_student_func i student db)) = query_first j db
     \<and> query_first j (snd (delete_student_func i db)) = query_first j db
     \<and> fst (get_student_func j (snd (update_student_func i student db)))
         = fst (get_student_func j db)
     \<and> fst (get_student_func j (snd (delete_student_func i db)))
         = fst (get_student_func j db)
     \<and> {r \<in> set (snd (update_student_func i student db)). id_m r = j}
         = {r \<in> set db. id_m r = j}
     \<and> {r \<in> set (snd (delete_student_func i db)). id_m r = j}
         = {r \<in> set db. id_m r = j}"
proof -
  have u: "query_first j (snd (update_student_func i student db)) = query_first j db
      \<and> {r \<in> set (snd (update_student_func i student db)). id_m r = j}
         = {r \<in> set db. id_m r = j}"
  proof -
    consider (same) "snd (update_student_func i student db) = db"
      | (changed) row where "query_first i db = Inr (Some row)"
          "snd (update_student_func i student db) =
             map (\<lambda>r. if id_m r = i
                   then row\<lparr>name := name student, email := email student,
                            age := age student, course := course student\<rparr>
                   else r) db"
      using update_student_func_cases [of i student db] by auto
    then show ?thesis
    proof cases
      case same
      then show ?thesis by simp
    next
      case changed
      let ?c = "row\<lparr>name := name student, email := email student,
                     age := age student, course := course student\<rparr>"
      from changed(1) have i: "id_m ?c = i" using query_first_id by force
      have "query_first j (map (\<lambda>r. if id_m r = id_m ?c then ?c else r) db) = query_first j db"
        using assms i by (intro query_first_update_other) simp
      then have "query_first j (map (\<lambda>r. if id_m r = i then ?c else r) db) = query_first j db"
        using i by simp
      moreover have "{r \<in> set (map (\<lambda>r. if id_m r = i then ?c else r) db). id_m r = j}
          = {r \<in> set db. id_m r = j}"
        using assms i by auto
      ultimately show ?thesis by (simp add: changed(2))
    qed
  qed
  have d: "query_first j (snd (delete_student_func i db)) = query_first j db
      \<and> {r \<in> set (snd (delete_student_func i db)). id_m r = j}
         = {r \<in> set db. id_m r = j}"
  proof -
    consider (same) "snd (delete_student_func i db) = db"
      | (removed) row where "query_first i db = Inr (Some row)"
          "snd (delete_student_func i db) = delete_commit row db"
      using delete_student_func_cases [of i db] by auto
    then show ?thesis
    proof cases
      case same
      then show ?thesis by simp
    next
      case removed
      then have i: "id_m row = i" using query_first_id by blast
      with assms have "query_first j (delete_commit row db) = query_first j db"
        by (simp add: query_first_delete_other)
      moreover from i assms have "{r \<in> set (delete_commit row db). id_m r = j}
          = {r \<in> set db. id_m r = j}"
        by (auto simp: delete_commit_def)
      ultimately show ?thesis by (simp add: removed(2))
    qed
  qed
  show ?thesis using u d by (simp add: get_student_func_def split: sum.splits option.splits)
qed

theorem other_records_untouched_witness:
  "(2::int) \<noteq> 1
   \<and> query_first 2 (snd (update_student_func 1 bob [ann_row, bob_row]))
       = query_first 2 [ann_row, bob_row]
   \<and> query_first 2 (snd (delete_student_func 1 [ann_row, bob_row]))
       = query_first 2 [ann_row, bob_row]
   \<and> fst (get_student_func 2 (snd (update_student_func 1 bob [ann_row, bob_row])))
       = fst (get_student_func 2 [ann_row, bob_row])
   \<and> fst (get_student_func 2 (snd (delete_student_func 1 [ann_row, bob_row])))
       = fst (get_student_func 2 [ann_row, bob_row])
   \<and> {r \<in> set (snd (update_student_func 1 bob [ann_row, bob_row])). id_m r = 2}
       = {r \<in> set [ann_row, bob_row]. id_m r = 2}
   \<and> {r \<in> set (snd (delete_student_func 1 [ann_row, bob_row])). id_m r = 2}
       = {r \<in> set [ann_row, bob_row]. id_m r = 2}"
proof -
  have h: "(2::int) \<noteq> 1" by simp
  from h other_records_untouched [OF h, of bob "[ann_row, bob_row]"]
  show ?thesis by (rule conjI)
qed

end
